theory Spec2Isabelle
  imports Main "HOL-Library.Word"
begin

section \<open>Strings\<close>

text \<open>
  A JavaScript string is a sequence of UTF-16 code units. Identifiers, names and message
  texts that come from clients are modelled as such; the fixed ASCII literals of the
  source (error texts) stay Isabelle strings.
\<close>

type_synonym jsstring = "16 word list"

definition str :: "string \<Rightarrow> jsstring" where
  "str s = map (\<lambda>c. of_nat (of_char c)) s"

text \<open>
  The code units removed by \<^verbatim>\<open>String.prototype.trim\<close>: the ECMAScript
  white space and line terminator code points, all of them in the basic plane.
\<close>

definition isWhiteSpace :: "16 word \<Rightarrow> bool" where
  "isWhiteSpace c \<longleftrightarrow>
     c = 0x0009 \<or> c = 0x000A \<or> c = 0x000B \<or> c = 0x000C \<or> c = 0x000D \<or>
     c = 0x0020 \<or> c = 0x00A0 \<or> c = 0x1680 \<or> (0x2000 \<le> c \<and> c \<le> 0x200A) \<or>
     c = 0x2028 \<or> c = 0x2029 \<or> c = 0x202F \<or> c = 0x205F \<or> c = 0x3000 \<or>
     c = 0xFEFF"

definition trim :: "jsstring \<Rightarrow> jsstring" where
  "trim s = rev (dropWhile isWhiteSpace (rev (dropWhile isWhiteSpace s)))"

text \<open>
  A request parameter is absent (\<open>None\<close>) or a string. \<^verbatim>\<open>!x\<close> holds of an
  absent parameter and of the empty string.
\<close>

definition falsy :: "jsstring option \<Rightarrow> bool" where
  "falsy x \<longleftrightarrow> (case x of None \<Rightarrow> True | Some s \<Rightarrow> s = [])"

text \<open>The value of a parameter that passed the \<^verbatim>\<open>!x\<close> guard.\<close>

definition truthy :: "jsstring option \<Rightarrow> jsstring option" where
  "truthy x = (if falsy x then None else x)"

section \<open>Data\<close>

text \<open>
  The message object built by the two ingress handlers (\<open>data\<close> and \<open>obj\<close>). A
  name of \<open>None\<close> is \<^verbatim>\<open>undefined\<close>. The message handler's object has no
  \<^verbatim>\<open>query\<close> property (\<open>None\<close>); the chat handler's has one, whose value may be
  \<^verbatim>\<open>undefined\<close> (\<open>Some None\<close>).
\<close>

record chatMessage =
  m_userId :: jsstring
  m_name :: "jsstring option"
  m_query :: "jsstring option option"
  m_message :: jsstring
  m_timestamp :: nat

text \<open>The documents of the two Firestore collections, \<open>groups\<close> and \<open>users\<close>.\<close>

record groupDoc =
  g_id :: jsstring
  g_userId :: jsstring
  g_name :: jsstring
  g_messages :: "chatMessage list"
  g_members :: "jsstring list"

record userDoc =
  u_id :: jsstring
  u_groups :: "(jsstring \<times> jsstring) list"

record firestore =
  groupsCol :: "jsstring \<rightharpoonup> groupDoc"
  usersCol :: "jsstring \<rightharpoonup> userDoc"

text \<open>
  A socket of \<^verbatim>\<open>fastify.websocketServer.clients\<close>: \<open>sock\<close> names the socket
  object, \<open>readyState\<close> is the transport's (1 is open), \<open>c_id\<close> and \<open>c_groupId\<close> are
  the two properties the connection handler sets (\<^verbatim>\<open>socket.id\<close>,
  \<^verbatim>\<open>socket.groupId\<close>), \<open>None\<close> while unset.
\<close>

record client =
  sock :: nat
  readyState :: nat
  c_id :: "jsstring option"
  c_groupId :: "jsstring option"

text \<open>The calls a handler makes on its collaborators, in the order it makes them.\<close>

datatype role = System | User

type_synonym turn = "role \<times> jsstring option"

datatype call =
    GetUser jsstring
  | GetDoc jsstring
  | UpdateDoc jsstring chatMessage
  | RunTransaction
  | ChatCompletion "turn list"
  | Close nat nat
  | Send nat chatMessage

text \<open>
  The process state: the two module-level objects \<open>users\<close> (user id to name) and
  \<open>groups\<close> (group id to member list), given by their own properties; the server's
  client set in iteration order; the document store; and the calls made so far.
\<close>

record world =
  users :: "jsstring \<rightharpoonup> jsstring"
  groups :: "jsstring \<rightharpoonup> jsstring list"
  clients :: "client list"
  db :: firestore
  trace :: "call list"

text \<open>
  What the collaborators answer. \<open>getUser\<close> is the identity provider (\<open>None\<close>: the
  lookup rejects); \<open>docThrows\<close> says for which ids building a document reference
  throws; \<open>ignoreUndefinedProperties\<close> is the store setting of that name, which is
  made where the store is initialised (\<^verbatim>\<open>firebase.js\<close>); \<open>readFails\<close>,
  \<open>updateFails\<close> and \<open>commitFails\<close> say whether a document read, a single update and
  a transaction commit reject; \<open>sendRaises\<close> says for which sockets \<^verbatim>\<open>send\<close> raises; \<open>groq\<close> is
  the completion provider (\<open>Inl st\<close>: the call rejects with an error whose
  \<^verbatim>\<open>status\<close> property is \<open>st\<close>, \<open>None\<close> when it has none; \<open>Inr None\<close>: no
  content in the first choice); \<open>now\<close> is the clock and \<open>uuidv4\<close> the identifier
  generated for a new group.
\<close>

record clerkUser =
  cu_id :: jsstring
  firstName :: "jsstring option"
  lastName :: "jsstring option"

record env =
  getUser :: "jsstring \<rightharpoonup> clerkUser"
  docThrows :: "jsstring \<Rightarrow> bool"
  ignoreUndefinedProperties :: bool
  readFails :: bool
  updateFails :: bool
  commitFails :: bool
  sendRaises :: "nat \<Rightarrow> bool"
  groq :: "turn list \<Rightarrow> nat option + jsstring option"
  now :: nat
  uuidv4 :: jsstring

text \<open>
  Errors: \<open>Error\<close> carries the text of a \<^verbatim>\<open>throw new Error(...)\<close> of the
  source; the others are rejections and exceptions raised by a collaborator or by the
  language (\<open>InvalidReference\<close>: thrown by \<^verbatim>\<open>doc(...)\<close>; \<open>GroqRejected\<close>
  carries the \<^verbatim>\<open>status\<close> property of the provider's error; \<open>TypeError\<close>: a
  property read on \<^verbatim>\<open>undefined\<close>, or spreading it).
\<close>

datatype error =
    Error string
  | ClerkRejected
  | FirestoreRejected
  | InvalidReference
  | GroqRejected "nat option"
  | SendRaised
  | TypeError

definition logCall :: "call \<Rightarrow> world \<Rightarrow> world" where
  "logCall c w = w\<lparr>trace := trace w @ [c]\<rparr>"

text \<open>
  \<open>users\<close> is a plain object, so \<^verbatim>\<open>users[k]\<close> for a key that is not an own
  property is looked up in \<^verbatim>\<open>Object.prototype\<close>. The table gives, for each
  inherited key, the \<^verbatim>\<open>name\<close> property of what is found there: the functions
  are named by their key, except the constructor, which is \<^verbatim>\<open>Object\<close>, and
  \<^verbatim>\<open>__proto__\<close> yields the prototype itself, which has no name. All of these
  values are truthy. Every read of \<open>groups\<close> goes on to the \<^verbatim>\<open>members\<close>
  property, which none of the inherited values has, so for \<open>groups\<close> an inherited key
  behaves as an absent one.
\<close>

definition inheritedFunctions :: "string list" where
  "inheritedFunctions =
     [''toString'', ''toLocaleString'', ''valueOf'', ''hasOwnProperty'', ''isPrototypeOf'',
      ''propertyIsEnumerable'', ''__defineGetter__'', ''__defineSetter__'',
      ''__lookupGetter__'', ''__lookupSetter__'']"

definition objectPrototype :: "jsstring \<rightharpoonup> jsstring option" where
  "objectPrototype k =
     (if k = str ''constructor'' then Some (Some (str ''Object''))
      else if k = str ''__proto__'' then Some None
      else if k \<in> set (map str inheritedFunctions) then Some (Some k)
      else None)"

text \<open>
  \<^verbatim>\<open>users[k]\<close>, given by the \<^verbatim>\<open>name\<close> property of the value found:
  \<open>None\<close> when the read yields \<^verbatim>\<open>undefined\<close>.
\<close>

definition usersGet :: "(jsstring \<rightharpoonup> jsstring) \<Rightarrow> jsstring \<rightharpoonup> jsstring option" where
  "usersGet us k = (case us k of Some n \<Rightarrow> Some (Some n) | None \<Rightarrow> objectPrototype k)"

section \<open>Broadcast\<close>

text \<open>
  \<^verbatim>\<open>members.includes(client.id)\<close>: an unset \<^verbatim>\<open>id\<close> is in no member list.
\<close>

definition includesId :: "jsstring list \<Rightarrow> jsstring option \<Rightarrow> bool" where
  "includesId ms x \<longleftrightarrow> (case x of None \<Rightarrow> False | Some u \<Rightarrow> u \<in> set ms)"

text \<open>
  The loop \<^verbatim>\<open>clients.forEach((client) => { if (...) client.send(...) })\<close> of
  both ingress handlers. The three conjuncts are evaluated left to right, so
  \<^verbatim>\<open>groups[groupId].members\<close> is read only for an open client tagged with the
  group, and raises when the group has no entry. An exception of the callback leaves the
  loop. The result is the outcome and the sockets that were sent to, in order.
\<close>

fun forEachSend ::
  "env \<Rightarrow> (jsstring \<rightharpoonup> jsstring list) \<Rightarrow> jsstring \<Rightarrow> client list \<Rightarrow> (error + unit) \<times> nat list"
where
  "forEachSend e gs groupId [] = (Inr (), [])"
| "forEachSend e gs groupId (c # cs) =
     (if readyState c = 1 \<and> c_groupId c = Some groupId then
        (case gs groupId of
           None \<Rightarrow> (Inl TypeError, [])
         | Some ms \<Rightarrow>
             if includesId ms (c_id c) then
               (if sendRaises e (sock c) then (Inl SendRaised, [])
                else (case forEachSend e gs groupId cs of (r, out) \<Rightarrow> (r, sock c # out)))
             else forEachSend e gs groupId cs)
      else forEachSend e gs groupId cs)"

definition broadcast :: "env \<Rightarrow> jsstring \<Rightarrow> chatMessage \<Rightarrow> world \<Rightarrow> (error + unit) \<times> world" where
  "broadcast e groupId m w =
     (case forEachSend e (groups w) groupId (clients w) of
        (r, out) \<Rightarrow> (r, w\<lparr>trace := trace w @ map (\<lambda>s. Send s m) out\<rparr>))"

text \<open>The delivery predicate of the loop.\<close>

definition eligible :: "(jsstring \<rightharpoonup> jsstring list) \<Rightarrow> jsstring \<Rightarrow> client \<Rightarrow> bool" where
  "eligible gs groupId c \<longleftrightarrow>
     readyState c = 1 \<and> c_groupId c = Some groupId \<and>
     (case gs groupId of None \<Rightarrow> False | Some ms \<Rightarrow> includesId ms (c_id c))"

section \<open>Collaborators\<close>

text \<open>\<^verbatim>\<open>clerkClient.users.getUser(userId)\<close>.\<close>

definition clerkGetUser :: "env \<Rightarrow> jsstring \<Rightarrow> world \<Rightarrow> (error + clerkUser) \<times> world" where
  "clerkGetUser e userId w =
     (case getUser e userId of
        None \<Rightarrow> (Inl ClerkRejected, logCall (GetUser userId) w)
      | Some user \<Rightarrow> (Inr user, logCall (GetUser userId) w))"

text \<open>
  \<^verbatim>\<open>doc(firestore, collection, id)\<close> builds a document reference or throws. A
  reference is identified with the id it was built from, and the collections of the
  store are indexed by these ids.
\<close>

definition doc :: "env \<Rightarrow> jsstring \<Rightarrow> error + jsstring" where
  "doc e i = (if docThrows e i then Inl InvalidReference else Inr i)"

text \<open>
  \<^verbatim>\<open>getDoc(groupRef)\<close>: the snapshot, \<open>None\<close> when \<^verbatim>\<open>exists()\<close> is
  false.
\<close>

definition getDoc :: "env \<Rightarrow> jsstring \<Rightarrow> world \<Rightarrow> (error + groupDoc option) \<times> world" where
  "getDoc e groupId w =
     (if readFails e then (Inl FirestoreRejected, logCall (GetDoc groupId) w)
      else (Inr (groupsCol (db w) groupId), logCall (GetDoc groupId) w))"

text \<open>\<^verbatim>\<open>arrayUnion(x)\<close> adds \<open>x\<close> at the end unless the array holds it already.\<close>

definition arrayUnion :: "'a list \<Rightarrow> 'a \<Rightarrow> 'a list" where
  "arrayUnion xs x = (if x \<in> set xs then xs else xs @ [x])"

text \<open>A property of the message object whose value is \<^verbatim>\<open>undefined\<close>.\<close>

definition undefinedField :: "chatMessage \<Rightarrow> bool" where
  "undefinedField m \<longleftrightarrow> m_name m = None \<or> m_query m = Some None"

text \<open>
  \<^verbatim>\<open>updateDoc(groupRef, { messages: arrayUnion(m) })\<close>: one write, which fails
  when the store rejects it, when the data holds an \<^verbatim>\<open>undefined\<close> value that the
  store is not set to ignore, or when the document does not exist.
\<close>

definition updateDoc :: "env \<Rightarrow> jsstring \<Rightarrow> chatMessage \<Rightarrow> world \<Rightarrow> (error + unit) \<times> world" where
  "updateDoc e groupId m w =
     (if updateFails e \<or> (undefinedField m \<and> \<not> ignoreUndefinedProperties e)
      then (Inl FirestoreRejected, logCall (UpdateDoc groupId m) w)
      else
        (case groupsCol (db w) groupId of
           None \<Rightarrow> (Inl FirestoreRejected, logCall (UpdateDoc groupId m) w)
         | Some g \<Rightarrow>
             (Inr (), logCall (UpdateDoc groupId m)
                (w\<lparr>db := (db w)\<lparr>groupsCol := (groupsCol (db w))
                   (groupId \<mapsto> g\<lparr>g_messages := arrayUnion (g_messages g) m\<rparr>)\<rparr>\<rparr>))))"

text \<open>
  The writes a transaction body buffers: \<^verbatim>\<open>transaction.set\<close> on a user or a
  group document, and \<^verbatim>\<open>transaction.update\<close> with an \<^verbatim>\<open>arrayUnion\<close> on
  the \<open>groups\<close> field of a user or the \<open>members\<close> field of a group. An update of a
  document that does not exist fails.
\<close>

datatype txWrite =
    SetUser jsstring userDoc
  | SetGroup jsstring groupDoc
  | UpdateUserGroups jsstring "jsstring \<times> jsstring"
  | UpdateGroupMembers jsstring jsstring

fun applyWrite :: "txWrite \<Rightarrow> firestore \<Rightarrow> firestore option" where
  "applyWrite (SetUser k d) s = Some (s\<lparr>usersCol := (usersCol s)(k \<mapsto> d)\<rparr>)"
| "applyWrite (SetGroup k d) s = Some (s\<lparr>groupsCol := (groupsCol s)(k \<mapsto> d)\<rparr>)"
| "applyWrite (UpdateUserGroups k x) s =
     (case usersCol s k of
        None \<Rightarrow> None
      | Some u \<Rightarrow> Some (s\<lparr>usersCol := (usersCol s)(k \<mapsto> u\<lparr>u_groups := arrayUnion (u_groups u) x\<rparr>)\<rparr>))"
| "applyWrite (UpdateGroupMembers k x) s =
     (case groupsCol s k of
        None \<Rightarrow> None
      | Some g \<Rightarrow> Some (s\<lparr>groupsCol := (groupsCol s)(k \<mapsto> g\<lparr>g_members := arrayUnion (g_members g) x\<rparr>)\<rparr>))"

fun commit :: "txWrite list \<Rightarrow> firestore \<Rightarrow> firestore option" where
  "commit [] s = Some s"
| "commit (x # xs) s = (case applyWrite x s of None \<Rightarrow> None | Some s' \<Rightarrow> commit xs s')"

text \<open>
  \<^verbatim>\<open>runTransaction(firestore, updateFunction)\<close>, by the store's contract: the body
  reads the store and buffers its writes; the commit applies them in order, all of them
  or, when the read, the commit or one of the writes fails, none.
\<close>

definition runTransaction ::
  "env \<Rightarrow> (firestore \<Rightarrow> txWrite list) \<Rightarrow> world \<Rightarrow> (error + unit) \<times> world"
where
  "runTransaction e updateFunction w =
     (if readFails e \<or> commitFails e then (Inl FirestoreRejected, logCall RunTransaction w)
      else
        (case commit (updateFunction (db w)) (db w) of
           None \<Rightarrow> (Inl FirestoreRejected, logCall RunTransaction w)
         | Some d \<Rightarrow> (Inr (), logCall RunTransaction (w\<lparr>db := d\<rparr>))))"

section \<open>WebSocket endpoint\<close>

text \<open>String concatenation turns \<^verbatim>\<open>null\<close> into the text null.\<close>

definition toStr :: "jsstring option \<Rightarrow> jsstring" where
  "toStr x = (case x of None \<Rightarrow> str ''null'' | Some s \<Rightarrow> s)"

definition displayName :: "clerkUser \<Rightarrow> jsstring" where
  "displayName user =
     (let name = trim (toStr (firstName user) @ str '' '' @ toStr (lastName user))
      in if name \<noteq> [] then name else cu_id user)"

definition tagSocket :: "nat \<Rightarrow> jsstring \<Rightarrow> jsstring \<Rightarrow> client list \<Rightarrow> client list" where
  "tagSocket sk userId groupId cs =
     map (\<lambda>c. if sock c = sk then c\<lparr>c_id := Some userId, c_groupId := Some groupId\<rparr> else c) cs"

text \<open>The body of the \<^verbatim>\<open>try\<close> block of the connection handler.\<close>

definition tryConnect ::
  "env \<Rightarrow> nat \<Rightarrow> jsstring \<Rightarrow> jsstring \<Rightarrow> jsstring \<Rightarrow> world \<Rightarrow> (error + unit) \<times> world"
where
  "tryConnect e sk userId groupId groupRef w =
     (case clerkGetUser e userId w of
        (Inl err, w1) \<Rightarrow> (Inl err, w1)
      | (Inr user, w1) \<Rightarrow>
          (case getDoc e groupRef w1 of
             (Inl err, w2) \<Rightarrow> (Inl err, w2)
           | (Inr None, w2) \<Rightarrow> (Inl (Error ''Group does not exist.''), w2)
           | (Inr (Some grp), w2) \<Rightarrow>
               if userId \<notin> set (g_members grp)
               then (Inl (Error ''User not joined the group.''), w2)
               else
                 (Inr (), w2\<lparr>users := (users w2)(cu_id user \<mapsto> displayName user),
                             groups := (groups w2)(groupId \<mapsto> g_members grp),
                             clients := tagSocket sk userId groupId (clients w2)\<rparr>)))"

text \<open>
  The handler of \<^verbatim>\<open>GET /message\<close> for socket \<open>sk\<close> and the two query
  parameters. The two guards throw, and so does building the group reference, which
  comes before the \<^verbatim>\<open>try\<close> block; whatever the \<^verbatim>\<open>try\<close> block raises
  is caught and answered by \<^verbatim>\<open>socket.close(4001, ...)\<close>, after which the handler
  returns without registering the message and close handlers.
\<close>

definition onConnect ::
  "env \<Rightarrow> nat \<Rightarrow> jsstring option \<Rightarrow> jsstring option \<Rightarrow> world \<Rightarrow> (error + unit) \<times> world"
where
  "onConnect e sk qUserId qGroupId w =
     (case truthy qUserId of
        None \<Rightarrow> (Inl (Error ''User id is required.''), w)
      | Some userId \<Rightarrow>
          (case truthy qGroupId of
             None \<Rightarrow> (Inl (Error ''Group id is required.''), w)
           | Some groupId \<Rightarrow>
               (case doc e groupId of
                  Inl err \<Rightarrow> (Inl err, w)
                | Inr groupRef \<Rightarrow>
                    (case tryConnect e sk userId groupId groupRef w of
                       (Inl err, w1) \<Rightarrow> (Inr (), logCall (Close sk 4001) w1)
                     | (Inr u, w1) \<Rightarrow> (Inr (), w1)))))"

text \<open>
  The \<^verbatim>\<open>message\<close> handler registered by a successful connection of socket
  \<open>sk\<close> with \<open>userId\<close> and \<open>groupId\<close>, run on the text \<open>data\<close> of a frame. Its
  group reference is the one the connection built from \<open>groupId\<close>.
\<close>

definition onMessage ::
  "env \<Rightarrow> nat \<Rightarrow> jsstring \<Rightarrow> jsstring \<Rightarrow> jsstring \<Rightarrow> world \<Rightarrow> (error + unit) \<times> world"
where
  "onMessage e sk userId groupId data w =
     (case usersGet (users w) userId of
        None \<Rightarrow> (Inr (), logCall (Close sk 4001) w)
      | Some name \<Rightarrow>
          (let message = trim data in
           if message = [] then (Inr (), w)
           else
             (let d = \<lparr>m_userId = userId, m_name = name, m_query = None,
                       m_message = message, m_timestamp = now e\<rparr>
              in case updateDoc e groupId d w of
                   (Inl err, w1) \<Rightarrow> (Inl err, w1)
                 | (Inr u, w1) \<Rightarrow> broadcast e groupId d w1)))"

text \<open>The \<^verbatim>\<open>close\<close> handler registered by the same connection.\<close>

definition onClose :: "jsstring \<Rightarrow> jsstring \<Rightarrow> world \<Rightarrow> (error + unit) \<times> world" where
  "onClose userId groupId w =
     (let w1 = w\<lparr>users := (users w)(userId := None)\<rparr> in
      case groups w1 groupId of
        None \<Rightarrow> (Inl TypeError, w1)
      | Some ms \<Rightarrow>
          (Inr (), w1\<lparr>groups := (groups w1)(groupId \<mapsto> filter (\<lambda>i. i \<noteq> userId) ms)\<rparr>))"

section \<open>HTTP routes\<close>

text \<open>
  A handler replies with a status and a body (\<open>Some\<close>), or returns without replying
  (\<open>None\<close>), or throws.
\<close>

datatype body =
    Text string
  | GroupData groupDoc
  | Created jsstring jsstring jsstring
  | ErrorBody error

type_synonym reply = "nat \<times> body"

record chatData =
  d_messages :: "jsstring option list option"
  d_query :: "jsstring option"

record chatRequest =
  r_userId :: "jsstring option"
  r_groupId :: "jsstring option"
  r_data :: "chatData option"

text \<open>
  The message list handed to the completion provider. Each element of
  \<^verbatim>\<open>data.messages\<close> is given by its \<^verbatim>\<open>message\<close> property.
\<close>

definition transcript :: "jsstring option list \<Rightarrow> jsstring option \<Rightarrow> turn list" where
  "transcript items q =
     [(System, Some (str ''You are a support assistant.''))] @
     map (\<lambda>m. (User, m)) items @ [(User, q)]"

text \<open>
  \<^verbatim>\<open>POST /chat\<close>. An absent \<^verbatim>\<open>data.messages\<close> makes the spread raise
  before the provider is called. The group reference is built after the provider has
  answered. The handler ends without a reply of its own.
\<close>

definition postChat :: "env \<Rightarrow> chatRequest \<Rightarrow> world \<Rightarrow> (error + reply option) \<times> world" where
  "postChat e req w =
     (case truthy (r_userId req) of
        None \<Rightarrow> (Inr (Some (400, Text ''User id is required.'')), w)
      | Some userId \<Rightarrow>
     (case truthy (r_groupId req) of
        None \<Rightarrow> (Inr (Some (400, Text ''Group id is required.'')), w)
      | Some groupId \<Rightarrow>
     (case r_data req of
        None \<Rightarrow> (Inr (Some (400, Text ''Message is required to chat with AI.'')), w)
      | Some data \<Rightarrow>
     (case usersGet (users w) userId of
        None \<Rightarrow> (Inr (Some (401, Text ''Unauthenticated.'')), w)
      | Some name \<Rightarrow>
     (case d_messages data of
        None \<Rightarrow> (Inl TypeError, w)
      | Some items \<Rightarrow>
     (case groq e (transcript items (d_query data)) of
        Inl st \<Rightarrow>
          (Inl (GroqRejected st), logCall (ChatCompletion (transcript items (d_query data))) w)
      | Inr content \<Rightarrow>
          (let message = (case content of None \<Rightarrow> [] | Some s \<Rightarrow> s);
               obj = \<lparr>m_userId = userId, m_name = name, m_query = Some (d_query data),
                      m_message = message, m_timestamp = now e\<rparr>
           in case doc e groupId of
                Inl err \<Rightarrow> (Inl err, logCall (ChatCompletion (transcript items (d_query data))) w)
              | Inr groupRef \<Rightarrow>
                  (case updateDoc e groupRef obj
                          (logCall (ChatCompletion (transcript items (d_query data))) w) of
                     (Inl err, w2) \<Rightarrow> (Inl err, w2)
                   | (Inr u, w2) \<Rightarrow>
                       (case broadcast e groupId obj w2 of
                          (Inl err, w3) \<Rightarrow> (Inl err, w3)
                        | (Inr u, w3) \<Rightarrow> (Inr None, w3))))))))))"

text \<open>
  The application installs no error handler, so a handler that throws is answered by the
  framework's default one: the status is the \<^verbatim>\<open>status\<close> property of the error
  when that is 400 or more, and 500 otherwise. Of the errors that leave
  \<^verbatim>\<open>POST /chat\<close> only the provider's carries a status.
\<close>

definition errorStatus :: "error \<Rightarrow> nat option" where
  "errorStatus err = (case err of GroqRejected st \<Rightarrow> st | _ \<Rightarrow> None)"

definition defaultErrorHandler :: "error \<Rightarrow> reply" where
  "defaultErrorHandler err =
     ((case errorStatus err of None \<Rightarrow> 500 | Some s \<Rightarrow> if 400 \<le> s then s else 500),
      ErrorBody err)"

text \<open>What the caller of \<^verbatim>\<open>POST /chat\<close> is answered, and the state after it.\<close>

definition chatRoute :: "env \<Rightarrow> chatRequest \<Rightarrow> world \<Rightarrow> reply option \<times> world" where
  "chatRoute e req w =
     (case postChat e req w of
        (Inl err, w') \<Rightarrow> (Some (defaultErrorHandler err), w')
      | (Inr r, w') \<Rightarrow> (r, w'))"

record createRequest =
  cr_userId :: "jsstring option"
  cr_groupName :: "jsstring option"

text \<open>
  The body of the transaction of \<^verbatim>\<open>POST /groups\<close>, on the two references built
  before it.
\<close>

definition createGroupTx ::
  "jsstring \<Rightarrow> jsstring \<Rightarrow> jsstring \<Rightarrow> jsstring \<Rightarrow> jsstring \<Rightarrow> firestore \<Rightarrow> txWrite list"
where
  "createGroupTx usersRef groupsRef userId groupId groupName s =
     (if usersCol s usersRef = None then [SetUser usersRef \<lparr>u_id = userId, u_groups = []\<rparr>] else []) @
     [SetGroup groupsRef \<lparr>g_id = groupId, g_userId = userId, g_name = groupName,
                          g_messages = [], g_members = [userId]\<rparr>,
      UpdateUserGroups usersRef (groupId, groupName)]"

definition postGroups :: "env \<Rightarrow> createRequest \<Rightarrow> world \<Rightarrow> (error + reply option) \<times> world" where
  "postGroups e req w =
     (case truthy (cr_userId req) of
        None \<Rightarrow> (Inl (Error ''User id is required.''), w)
      | Some userId \<Rightarrow>
     (case truthy (cr_groupName req) of
        None \<Rightarrow> (Inl (Error ''Group name is required.''), w)
      | Some groupName \<Rightarrow>
     (case clerkGetUser e userId w of
        (Inl err, w1) \<Rightarrow> (Inl err, w1)
      | (Inr user, w1) \<Rightarrow>
     (case doc e (uuidv4 e) of
        Inl err \<Rightarrow> (Inl err, w1)
      | Inr groupsRef \<Rightarrow>
     (case doc e userId of
        Inl err \<Rightarrow> (Inl err, w1)
      | Inr usersRef \<Rightarrow>
          (case runTransaction e
                  (createGroupTx usersRef groupsRef userId (uuidv4 e) groupName) w1 of
             (Inl err, w2) \<Rightarrow> (Inl err, w2)
           | (Inr u, w2) \<Rightarrow>
               (Inr (Some (200, Created userId (uuidv4 e) groupName)), w2)))))))"

record joinRequest =
  jr_userId :: "jsstring option"
  jr_groupId :: "jsstring option"

text \<open>
  The body of the transaction of \<^verbatim>\<open>PATCH /groups\<close>, on the two references
  built before it; \<open>data\<close> is the group document read before the transaction.
\<close>

definition joinGroupTx ::
  "jsstring \<Rightarrow> jsstring \<Rightarrow> jsstring \<Rightarrow> groupDoc \<Rightarrow> firestore \<Rightarrow> txWrite list"
where
  "joinGroupTx usersRef groupRef userId data s =
     (if usersCol s usersRef = None then [SetUser usersRef \<lparr>u_id = userId, u_groups = []\<rparr>] else []) @
     [UpdateUserGroups usersRef (g_id data, g_name data),
      UpdateGroupMembers groupRef userId]"

definition patchGroups :: "env \<Rightarrow> joinRequest \<Rightarrow> world \<Rightarrow> (error + reply option) \<times> world" where
  "patchGroups e req w =
     (case truthy (jr_userId req) of
        None \<Rightarrow> (Inr (Some (400, Text ''User id is required.'')), w)
      | Some userId \<Rightarrow>
     (case truthy (jr_groupId req) of
        None \<Rightarrow> (Inr (Some (400, Text ''Group id is required.'')), w)
      | Some groupId \<Rightarrow>
     (case clerkGetUser e userId w of
        (Inl err, w1) \<Rightarrow> (Inl err, w1)
      | (Inr user, w1) \<Rightarrow>
     (case doc e userId of
        Inl err \<Rightarrow> (Inl err, w1)
      | Inr usersRef \<Rightarrow>
     (case doc e groupId of
        Inl err \<Rightarrow> (Inl err, w1)
      | Inr groupRef \<Rightarrow>
     (case getDoc e groupRef w1 of
        (Inl err, w2) \<Rightarrow> (Inl err, w2)
      | (Inr None, w2) \<Rightarrow> (Inr (Some (404, Text ''Group does not exist.'')), w2)
      | (Inr (Some data), w2) \<Rightarrow>
          (case runTransaction e (joinGroupTx usersRef groupRef userId data) w2 of
             (Inl err, w3) \<Rightarrow> (Inl err, w3)
           | (Inr u, w3) \<Rightarrow> (Inr (Some (200, GroupData data)), w3))))))))"

section \<open>Observations and invariants\<close>

text \<open>The calls made between a state and a later one.\<close>

definition newCalls :: "world \<Rightarrow> world \<Rightarrow> call list" where
  "newCalls w w' = drop (length (trace w)) (trace w')"

text \<open>
  The connection handler tags a socket only together with writing the entry of its
  group, and no handler removes an entry of \<open>groups\<close>: every tagged socket's group
  has an entry.
\<close>

definition wellTagged :: "world \<Rightarrow> bool" where
  "wellTagged w \<longleftrightarrow> (\<forall>c\<in>set (clients w). \<forall>g. c_groupId c = Some g \<longrightarrow> groups w g \<noteq> None)"

section \<open>A concrete deployment\<close>

definition alice :: jsstring where "alice = str ''alice''"
definition bob :: jsstring where "bob = str ''bob''"
definition carol :: jsstring where "carol = str ''carol''"
definition dave :: jsstring where "dave = str ''dave''"
definition g1 :: jsstring where "g1 = str ''g1''"
definition g2 :: jsstring where "g2 = str ''g2''"
definition g3 :: jsstring where "g3 = str ''g3''"
definition gx :: jsstring where "gx = str ''g1/x''"
definition erin :: jsstring where "erin = str ''erin''"

text \<open>
  Alice and Bob are connected to \<open>g1\<close> and Carol to \<open>g2\<close>. Socket 4 is a closed
  connection of Bob, socket 5 has not been authenticated, and socket 6 is a connection
  of Dave to \<open>g1\<close> left open after another connection of his closed and removed him from
  the member list.
\<close>

definition exClients :: "client list" where
  "exClients =
     [\<lparr>sock = 1, readyState = 1, c_id = Some alice, c_groupId = Some g1\<rparr>,
      \<lparr>sock = 2, readyState = 1, c_id = Some bob, c_groupId = Some g1\<rparr>,
      \<lparr>sock = 3, readyState = 1, c_id = Some carol, c_groupId = Some g2\<rparr>,
      \<lparr>sock = 4, readyState = 3, c_id = Some bob, c_groupId = Some g1\<rparr>,
      \<lparr>sock = 5, readyState = 1, c_id = None, c_groupId = None\<rparr>,
      \<lparr>sock = 6, readyState = 1, c_id = Some dave, c_groupId = Some g1\<rparr>]"

definition exGroup1 :: groupDoc where
  "exGroup1 = \<lparr>g_id = g1, g_userId = alice, g_name = str ''general'', g_messages = [],
               g_members = [alice, bob, dave]\<rparr>"

definition exGroup2 :: groupDoc where
  "exGroup2 = \<lparr>g_id = g2, g_userId = carol, g_name = str ''carols'', g_messages = [],
               g_members = [carol]\<rparr>"

definition exDb :: firestore where
  "exDb = \<lparr>groupsCol = [g1 \<mapsto> exGroup1, g2 \<mapsto> exGroup2],
           usersCol = [alice \<mapsto> \<lparr>u_id = alice, u_groups = [(g1, str ''general'')]\<rparr>]\<rparr>"

definition exWorld :: world where
  "exWorld = \<lparr>users = [alice \<mapsto> str ''Alice A'', bob \<mapsto> str ''Bob B'', carol \<mapsto> carol],
              groups = [g1 \<mapsto> [alice, bob], g2 \<mapsto> [carol]],
              clients = exClients, db = exDb, trace = []\<rparr>"

definition exClerk :: "jsstring \<rightharpoonup> clerkUser" where
  "exClerk =
     [alice \<mapsto> \<lparr>cu_id = alice, firstName = Some (str ''Alice''), lastName = Some (str ''A'')\<rparr>,
      bob \<mapsto> \<lparr>cu_id = bob, firstName = Some (str ''Bob''), lastName = Some (str ''B'')\<rparr>,
      carol \<mapsto> \<lparr>cu_id = carol, firstName = Some [], lastName = Some []\<rparr>,
      dave \<mapsto> \<lparr>cu_id = dave, firstName = Some (str ''Dave''), lastName = None\<rparr>]"

text \<open>
  The store's client library builds a document reference from a collection name and an
  id by splitting the id at \<open>/\<close> and dropping empty segments; it throws when the id
  contains \<open>//\<close> and when the path, collection name included, has an odd number of
  segments.
\<close>

fun doubleSlash :: "jsstring \<Rightarrow> bool" where
  "doubleSlash (a # b # cs) = ((a = 0x2F \<and> b = 0x2F) \<or> doubleSlash (b # cs))"
| "doubleSlash cs = False"

fun splitSlash :: "jsstring \<Rightarrow> jsstring list" where
  "splitSlash [] = [[]]"
| "splitSlash (c # cs) =
     (if c = 0x2F then [] # splitSlash cs
      else (case splitSlash cs of [] \<Rightarrow> [[c]] | x # xs \<Rightarrow> (c # x) # xs))"

definition invalidDocPath :: "jsstring \<Rightarrow> bool" where
  "invalidDocPath i \<longleftrightarrow>
     doubleSlash i \<or> even (length (filter (\<lambda>x. x \<noteq> []) (splitSlash i)))"

definition exEnv :: env where
  "exEnv = \<lparr>getUser = exClerk, docThrows = invalidDocPath, ignoreUndefinedProperties = False,
            readFails = False, updateFails = False, commitFails = False,
            sendRaises = (\<lambda>s. False), groq = (\<lambda>t. Inr (Some (str ''Hello.''))),
            now = 1700000000, uuidv4 = g3\<rparr>"

definition exMsg :: chatMessage where
  "exMsg = \<lparr>m_userId = alice, m_name = Some (str ''Alice A''), m_query = None,
            m_message = str ''hello'', m_timestamp = 1700000000\<rparr>"

text \<open>The same deployment with a transport whose \<^verbatim>\<open>send\<close> raises on one socket.\<close>

definition exEnvSend1 :: env where
  "exEnvSend1 = exEnv\<lparr>sendRaises := (\<lambda>s. s = 1)\<rparr>"

definition exEnvSend2 :: env where
  "exEnvSend2 = exEnv\<lparr>sendRaises := (\<lambda>s. s = 2)\<rparr>"

text \<open>
  The same deployment with a store that rejects updates, with a provider that cannot be
  reached, and with a provider that answers 429 (too many requests).
\<close>

definition exEnvNoWrite :: env where
  "exEnvNoWrite = exEnv\<lparr>updateFails := True\<rparr>"

definition exEnvGroqDown :: env where
  "exEnvGroqDown = exEnv\<lparr>groq := (\<lambda>t. Inl None)\<rparr>"

definition exEnvGroq429 :: env where
  "exEnvGroq429 = exEnv\<lparr>groq := (\<lambda>t. Inl (Some 429))\<rparr>"

text \<open>A frame of a space, a tab, an ideographic space and a line feed.\<close>

definition blank :: jsstring where
  "blank = [0x20, 0x09, 0x3000, 0x0A]"

text \<open>Requests to the three routes.\<close>

definition exChatData :: chatData where
  "exChatData = \<lparr>d_messages = Some [Some (str ''hello'')], d_query = Some (str ''why?'')\<rparr>"

definition exChat :: chatRequest where
  "exChat = \<lparr>r_userId = Some alice, r_groupId = Some g1, r_data = Some exChatData\<rparr>"

text \<open>A request in the name of a key that \<open>users\<close> inherits.\<close>

definition exChatInherited :: chatRequest where
  "exChatInherited =
     \<lparr>r_userId = Some (str ''constructor''), r_groupId = Some g1, r_data = Some exChatData\<rparr>"

definition exCreate :: createRequest where
  "exCreate = \<lparr>cr_userId = Some bob, cr_groupName = Some (str ''chess'')\<rparr>"

definition exJoin :: joinRequest where
  "exJoin = \<lparr>jr_userId = Some carol, jr_groupId = Some g1\<rparr>"

section \<open>Auxiliary facts\<close>

lemmas ex_ids = alice_def bob_def carol_def dave_def erin_def g1_def g2_def g3_def gx_def
  str_def

lemma forEachSend_all:
  assumes "\<forall>c\<in>set cs. c_groupId c = Some G \<longrightarrow> gs G \<noteq> None"
      and "\<forall>c\<in>set cs. eligible gs G c \<longrightarrow> \<not> sendRaises e (sock c)"
  shows "forEachSend e gs G cs = (Inr (), map sock (filter (eligible gs G) cs))"
  using assms
  by (induction cs) (auto simp: eligible_def split: option.splits)

lemma forEachSend_stops:
  assumes "\<forall>c\<in>set pre. c_groupId c = Some G \<longrightarrow> gs G \<noteq> None"
      and "\<forall>c\<in>set pre. eligible gs G c \<longrightarrow> \<not> sendRaises e (sock c)"
      and "eligible gs G c" and "sendRaises e (sock c)"
  shows "forEachSend e gs G (pre @ c # post) = (Inl SendRaised, map sock (filter (eligible gs G) pre))"
  using assms
  by (induction pre) (auto simp: eligible_def split: option.splits)

lemma sock_in_filter:
  assumes "distinct (map sock cs)" and "c \<in> set cs"
  shows "sock c \<in> sock ` {x \<in> set cs. P x} \<longleftrightarrow> P c"
  using assms by (auto simp: distinct_map inj_on_def)

lemmas run_defs = clerkGetUser_def getDoc_def doc_def invalidDocPath_def runTransaction_def
  logCall_def truthy_def falsy_def arrayUnion_def

lemma truthy_Some: "truthy x = Some s \<longleftrightarrow> x = Some s \<and> s \<noteq> []"
  by (auto simp: truthy_def falsy_def split: option.splits)

lemma truthy_None: "truthy x = None \<longleftrightarrow> falsy x"
  by (simp add: truthy_def falsy_def split: option.splits)

lemma trim_empty_iff: "trim s = [] \<longleftrightarrow> (\<forall>c\<in>set s. isWhiteSpace c)"
proof
  assume "trim s = []"
  then have "dropWhile isWhiteSpace (rev (dropWhile isWhiteSpace s)) = []"
    by (simp add: trim_def)
  then have "\<forall>c\<in>set (dropWhile isWhiteSpace s). isWhiteSpace c"
    by simp
  then have "dropWhile isWhiteSpace s = []"
    by (metis hd_dropWhile hd_in_set)
  then show "\<forall>c\<in>set s. isWhiteSpace c"
    by simp
next
  assume "\<forall>c\<in>set s. isWhiteSpace c"
  then show "trim s = []" by (auto simp: trim_def dest: set_dropWhileD)
qed

lemma db_logCall [simp]: "db (logCall c w) = db w"
  by (simp add: logCall_def)

lemma arrayUnion_Nil: "arrayUnion [] x = [x]"
  by (simp add: arrayUnion_def)

lemma runTransaction_cases:
  "runTransaction e f w = (Inl FirestoreRejected, logCall RunTransaction w) \<or>
   (\<exists>d. commit (f (db w)) (db w) = Some d \<and>
        runTransaction e f w = (Inr (), logCall RunTransaction (w\<lparr>db := d\<rparr>)))"
  by (cases "commit (f (db w)) (db w)") (simp_all add: runTransaction_def)

lemma commit_createGroupTx:
  "commit (createGroupTx userId groupId userId groupId groupName s) s =
     Some (s\<lparr>groupsCol := (groupsCol s)(groupId \<mapsto>
                 \<lparr>g_id = groupId, g_userId = userId, g_name = groupName,
                  g_messages = [], g_members = [userId]\<rparr>),
              usersCol := (usersCol s)(userId \<mapsto>
                 (case usersCol s userId of
                    None \<Rightarrow> \<lparr>u_id = userId, u_groups = [(groupId, groupName)]\<rparr>
                  | Some u \<Rightarrow> u\<lparr>u_groups := arrayUnion (u_groups u) (groupId, groupName)\<rparr>))\<rparr>)"
proof (cases "usersCol s userId")
  case None
  then show ?thesis by (simp add: createGroupTx_def arrayUnion_Nil)
next
  case (Some u)
  then show ?thesis by (simp add: createGroupTx_def)
qed

lemma commit_joinGroupTx:
  assumes "groupsCol s groupId = Some data"
  shows "commit (joinGroupTx userId groupId userId data s) s =
     Some (s\<lparr>usersCol := (usersCol s)(userId \<mapsto>
                 (case usersCol s userId of
                    None \<Rightarrow> \<lparr>u_id = userId, u_groups = [(g_id data, g_name data)]\<rparr>
                  | Some u \<Rightarrow> u\<lparr>u_groups := arrayUnion (u_groups u) (g_id data, g_name data)\<rparr>)),
              groupsCol := (groupsCol s)(groupId \<mapsto>
                 data\<lparr>g_members := arrayUnion (g_members data) userId\<rparr>)\<rparr>)"
proof (cases "usersCol s userId")
  case None
  with assms show ?thesis by (simp add: joinGroupTx_def arrayUnion_Nil)
next
  case (Some u)
  with assms show ?thesis by (simp add: joinGroupTx_def)
qed

lemma arrayUnion_member: "x \<in> set (arrayUnion xs x)"
  by (simp add: arrayUnion_def)


text \<open>
  Both ingress handlers run the broadcast for the group they were given, on the message
  they stored.
\<close>

lemma onMessage_broadcasts:
  assumes "usersGet (users w) userId = Some name" and "trim data \<noteq> []"
      and "updateDoc e groupId \<lparr>m_userId = userId, m_name = name, m_query = None,
             m_message = trim data, m_timestamp = now e\<rparr> w = (Inr x, w1)"
  shows "onMessage e sk userId groupId data w =
           broadcast e groupId \<lparr>m_userId = userId, m_name = name, m_query = None,
             m_message = trim data, m_timestamp = now e\<rparr> w1"
  using assms by (simp add: onMessage_def)

lemma postChat_broadcasts:
  assumes "truthy (r_userId req) = Some userId"
      and "truthy (r_groupId req) = Some groupId"
      and "r_data req = Some data"
      and "usersGet (users w) userId = Some name"
      and "d_messages data = Some items"
      and "groq e (transcript items (d_query data)) = Inr content"
      and "\<not> docThrows e groupId"
      and "updateDoc e groupId \<lparr>m_userId = userId, m_name = name, m_query = Some (d_query data),
             m_message = (case content of None \<Rightarrow> [] | Some s \<Rightarrow> s), m_timestamp = now e\<rparr>
             (logCall (ChatCompletion (transcript items (d_query data))) w) = (Inr x, w2)"
  shows "snd (postChat e req w) =
           snd (broadcast e groupId \<lparr>m_userId = userId, m_name = name,
             m_query = Some (d_query data),
             m_message = (case content of None \<Rightarrow> [] | Some s \<Rightarrow> s), m_timestamp = now e\<rparr> w2)"
  using assms by (simp add: postChat_def doc_def split: prod.splits sum.splits)

subsection \<open>What the handlers keep\<close>

lemma broadcast_keeps:
  "users (snd (broadcast e G m w)) = users w \<and> groups (snd (broadcast e G m w)) = groups w \<and>
   clients (snd (broadcast e G m w)) = clients w \<and> db (snd (broadcast e G m w)) = db w"
  by (simp add: broadcast_def split: prod.splits)

lemma updateDoc_keeps:
  "users (snd (updateDoc e G m w)) = users w \<and> groups (snd (updateDoc e G m w)) = groups w \<and>
   clients (snd (updateDoc e G m w)) = clients w"
  by (simp add: updateDoc_def logCall_def split: option.splits)

lemma onMessage_keeps:
  "users (snd (onMessage e sk userId groupId data w)) = users w \<and>
   groups (snd (onMessage e sk userId groupId data w)) = groups w \<and>
   clients (snd (onMessage e sk userId groupId data w)) = clients w"
proof (cases "usersGet (users w) userId")
  case None
  then show ?thesis by (simp add: onMessage_def logCall_def)
next
  case (Some name)
  show ?thesis
  proof (cases "trim data = []")
    case True
    with Some show ?thesis by (simp add: onMessage_def)
  next
    case False
    let ?d = "\<lparr>m_userId = userId, m_name = name, m_query = None,
                       m_message = trim data, m_timestamp = now e\<rparr>"
    obtain r w1 where u: "updateDoc e groupId ?d w = (r, w1)" by (cases "updateDoc e groupId ?d w")
    with updateDoc_keeps [of e groupId ?d w]
    have k: "users w1 = users w" "groups w1 = groups w" "clients w1 = clients w" by simp_all
    show ?thesis
    proof (cases r)
      case (Inl err)
      with Some False u k show ?thesis by (simp add: onMessage_def)
    next
      case (Inr x)
      with Some False u k broadcast_keeps [of e groupId ?d w1] show ?thesis
        by (simp add: onMessage_def)
    qed
  qed
qed

lemma tryConnect_registers:
  assumes "tryConnect e sk userId groupId groupRef w = (Inr x, w')"
  shows "groups w' groupId \<noteq> None \<and> dom (groups w) \<subseteq> dom (groups w') \<and>
         clients w' = tagSocket sk userId groupId (clients w)"
  using assms
  by (auto simp: tryConnect_def clerkGetUser_def getDoc_def logCall_def
        split: option.splits if_splits)

lemma tryConnect_error_keeps:
  assumes "tryConnect e sk userId groupId groupRef w = (Inl err, w')"
  shows "groups w' = groups w \<and> clients w' = clients w \<and> users w' = users w"
  using assms
  by (auto simp: tryConnect_def clerkGetUser_def getDoc_def logCall_def
        split: option.splits if_splits)

lemma wellTagged_onConnect:
  assumes "wellTagged w"
  shows "wellTagged (snd (onConnect e sk qUserId qGroupId w))"
proof (cases "truthy qUserId")
  case None
  with assms show ?thesis by (simp add: onConnect_def)
next
  case u: (Some userId)
  show ?thesis
  proof (cases "truthy qGroupId")
    case None
    with assms u show ?thesis by (simp add: onConnect_def)
  next
    case g: (Some groupId)
    obtain r w1 where t: "tryConnect e sk userId groupId groupId w = (r, w1)"
      by (cases "tryConnect e sk userId groupId groupId w")
    show ?thesis
    proof (cases r)
      case (Inl err)
      with t tryConnect_error_keeps [of e sk userId groupId groupId w err w1] assms u g
      show ?thesis by (simp add: onConnect_def doc_def wellTagged_def logCall_def)
    next
      case (Inr x)
      with t tryConnect_registers [of e sk userId groupId groupId w x w1]
      have reg: "groups w1 groupId \<noteq> None" "dom (groups w) \<subseteq> dom (groups w1)"
        "clients w1 = tagSocket sk userId groupId (clients w)" by simp_all
      have "wellTagged w1"
        unfolding wellTagged_def
      proof (intro ballI allI impI)
        fix c g assume c: "c \<in> set (clients w1)" and cg: "c_groupId c = Some g"
        from c reg(3) obtain c0 where c0: "c0 \<in> set (clients w)"
          and cc: "c = (if sock c0 = sk then c0\<lparr>c_id := Some userId, c_groupId := Some groupId\<rparr> else c0)"
          by (auto simp: tagSocket_def)
        show "groups w1 g \<noteq> None"
        proof (cases "sock c0 = sk")
          case True
          with cc cg have "g = groupId" by simp
          with reg(1) show ?thesis by simp
        next
          case False
          with cc cg have "c_groupId c0 = Some g" by simp
          with assms c0 have "groups w g \<noteq> None" by (simp add: wellTagged_def)
          with reg(2) show ?thesis by blast
        qed
      qed
      with t Inr u g assms show ?thesis by (simp add: onConnect_def doc_def)
    qed
  qed
qed

lemma wellTagged_onClose:
  assumes "wellTagged w"
  shows "wellTagged (snd (onClose userId groupId w))"
  using assms by (auto simp: onClose_def wellTagged_def Let_def split: option.splits)

lemma wellTagged_onMessage:
  assumes "wellTagged w"
  shows "wellTagged (snd (onMessage e sk userId groupId data w))"
  using assms onMessage_keeps [of e sk userId groupId data w] by (simp add: wellTagged_def)

lemma onConnect_success_registers:
  assumes "truthy qUserId = Some userId" and "truthy qGroupId = Some groupId"
      and "\<not> docThrows e groupId"
      and "tryConnect e sk userId groupId groupId w = (Inr x, w')"
  shows "onConnect e sk qUserId qGroupId w = (Inr (), w') \<and> groups w' groupId \<noteq> None"
  using assms tryConnect_registers [OF assms(4)] by (simp add: onConnect_def doc_def)

lemma onConnect_invalid_reference:
  assumes "truthy qUserId = Some userId" and "truthy qGroupId = Some groupId"
      and "docThrows e groupId"
  shows "onConnect e sk qUserId qGroupId w = (Inl InvalidReference, w)"
  using assms by (simp add: onConnect_def doc_def)

lemma onClose_keeps_entries:
  "dom (groups w) \<subseteq> dom (groups (snd (onClose userId groupId w)))"
  by (auto simp: onClose_def Let_def split: option.splits)

section \<open>Broadcast scoping\<close>

text \<open>
  C1. In a state where every tagged socket's group has an entry and the sockets are
  distinct, and when no \<^verbatim>\<open>send\<close> to a matching connection raises, a broadcast
  for group \<open>G\<close> ends normally and sends the payload, in iteration order, to exactly the
  connections that are open, tagged with \<open>G\<close> and whose user id is in the member list of
  \<open>groups[G]\<close>; a connection of the client set is sent the payload if and only if it
  satisfies this predicate.
\<close>

theorem broadcast_scoping:
  assumes "wellTagged w"
      and "distinct (map sock (clients w))"
      and "\<forall>c\<in>set (clients w). eligible (groups w) G c \<longrightarrow> \<not> sendRaises e (sock c)"
  shows "broadcast e G m w =
           (Inr (), w\<lparr>trace := trace w @
              map (\<lambda>c. Send (sock c) m) (filter (eligible (groups w) G) (clients w))\<rparr>) \<and>
         (\<forall>c\<in>set (clients w).
            Send (sock c) m \<in> set (newCalls w (snd (broadcast e G m w))) \<longleftrightarrow>
            eligible (groups w) G c)"
proof -
  from assms(1) have tagged: "\<forall>c\<in>set (clients w). c_groupId c = Some G \<longrightarrow> groups w G \<noteq> None"
    by (simp add: wellTagged_def)
  have run: "forEachSend e (groups w) G (clients w) =
               (Inr (), map sock (filter (eligible (groups w) G) (clients w)))"
    by (rule forEachSend_all [OF tagged assms(3)])
  have eq: "broadcast e G m w =
           (Inr (), w\<lparr>trace := trace w @
              map (\<lambda>c. Send (sock c) m) (filter (eligible (groups w) G) (clients w))\<rparr>)"
    by (simp add: broadcast_def run comp_def)
  have "\<forall>c\<in>set (clients w).
            Send (sock c) m \<in> set (newCalls w (snd (broadcast e G m w))) \<longleftrightarrow>
            eligible (groups w) G c"
  proof
    fix c assume c: "c \<in> set (clients w)"
    have "Send (sock c) m \<in> set (newCalls w (snd (broadcast e G m w))) \<longleftrightarrow>
          sock c \<in> sock ` {x \<in> set (clients w). eligible (groups w) G x}"
      by (auto simp: eq newCalls_def)
    then show "Send (sock c) m \<in> set (newCalls w (snd (broadcast e G m w))) \<longleftrightarrow>
            eligible (groups w) G c"
      using sock_in_filter [OF assms(2) c] by simp
  qed
  with eq show ?thesis by simp
qed

text \<open>
  In the concrete deployment a message for \<open>g1\<close> reaches the sockets of Alice and Bob,
  and neither Carol's (other group), nor Bob's closed one, nor the unauthenticated one,
  nor Dave's (not in the member list).
\<close>

theorem broadcast_scoping_witness:
  "wellTagged exWorld \<and> distinct (map sock (clients exWorld)) \<and>
   newCalls exWorld (snd (broadcast exEnv g1 exMsg exWorld)) = [Send 1 exMsg, Send 2 exMsg]"
proof -
  have h1: "wellTagged exWorld"
    by (simp add: wellTagged_def exWorld_def exClients_def ex_ids)
  have h2: "distinct (map sock (clients exWorld))"
    by (simp add: exWorld_def exClients_def)
  have h3: "\<forall>c\<in>set (clients exWorld). eligible (groups exWorld) g1 c \<longrightarrow> \<not> sendRaises exEnv (sock c)"
    by (simp add: exEnv_def)
  have "broadcast exEnv g1 exMsg exWorld =
           (Inr (), exWorld\<lparr>trace := trace exWorld @
              map (\<lambda>c. Send (sock c) exMsg) (filter (eligible (groups exWorld) g1) (clients exWorld))\<rparr>)"
    using broadcast_scoping [OF h1 h2 h3, of exMsg] by simp
  then have "newCalls exWorld (snd (broadcast exEnv g1 exMsg exWorld)) = [Send 1 exMsg, Send 2 exMsg]"
    by (simp add: newCalls_def exWorld_def exClients_def eligible_def includesId_def ex_ids)
  with h1 h2 show ?thesis by simp
qed

section \<open>A failed append\<close>

text \<open>
  C2, as stated, fails: Alice is connected, her frame is not blank, and her own socket
  matches and would accept the payload, but when the store rejects the update the
  handler ends with that rejection after the one call to the store, and sends nothing.
\<close>

theorem append_failure_counterexample:
  "usersGet (users exWorld) alice = Some (Some (str ''Alice A'')) \<and>
   trim (str ''hello'') = str ''hello'' \<and>
   eligible (groups exWorld) g1 (exClients ! 0) \<and> exClients ! 0 \<in> set (clients exWorld) \<and>
   \<not> sendRaises exEnvNoWrite (sock (exClients ! 0)) \<and>
   onMessage exEnvNoWrite 1 alice g1 (str ''hello'') exWorld =
     (Inl FirestoreRejected, exWorld\<lparr>trace := [UpdateDoc g1 exMsg]\<rparr>)"
  by (simp add: onMessage_def usersGet_def updateDoc_def logCall_def trim_def isWhiteSpace_def
        eligible_def includesId_def exEnvNoWrite_def exEnv_def exWorld_def exClients_def
        exMsg_def ex_ids)

text \<open>
  C2, amended. For a non-blank frame of a connected user, when the append to the group's
  message list fails (the store rejects the update, or the message has no name and the
  store does not ignore undefined values, or the group document does not exist), the
  message handler ends with the store's error right after that call: no broadcast takes
  place, no connection is sent the message, and the store is unchanged.
\<close>

theorem onMessage_append_failure:
  assumes "usersGet (users w) userId = Some name"
      and "trim data \<noteq> []"
      and "updateFails e \<or> (name = None \<and> \<not> ignoreUndefinedProperties e) \<or>
           groupsCol (db w) groupId = None"
  shows "onMessage e sk userId groupId data w =
           (Inl FirestoreRejected,
            logCall (UpdateDoc groupId \<lparr>m_userId = userId, m_name = name, m_query = None,
                       m_message = trim data, m_timestamp = now e\<rparr>) w)"
  using assms by (auto simp: onMessage_def updateDoc_def undefinedField_def Let_def)

text \<open>
  Carol's handler for a group whose document does not exist.
\<close>

theorem onMessage_append_failure_witness:
  "onMessage exEnv 3 carol g3 (str '' hi '') exWorld =
     (Inl FirestoreRejected,
      logCall (UpdateDoc g3 \<lparr>m_userId = carol, m_name = Some carol, m_query = None,
                 m_message = trim (str '' hi ''), m_timestamp = now exEnv\<rparr>) exWorld)"
proof -
  have h1: "usersGet (users exWorld) carol = Some (Some carol)"
    by (simp add: usersGet_def exWorld_def ex_ids)
  have h2: "trim (str '' hi '') \<noteq> []"
    by (simp add: trim_def isWhiteSpace_def str_def)
  have h3: "updateFails exEnv \<or> (Some carol = None \<and> \<not> ignoreUndefinedProperties exEnv) \<or>
            groupsCol (db exWorld) g3 = None"
    by (simp add: exWorld_def exDb_def ex_ids)
  show ?thesis by (rule onMessage_append_failure [OF h1 h2 h3])
qed

section \<open>A send that raises\<close>

text \<open>
  C3, as stated, fails: when \<^verbatim>\<open>send\<close> raises on Alice's socket, Bob's socket,
  which matches and whose own \<^verbatim>\<open>send\<close> would not raise, is sent nothing; the
  broadcast ends with the exception and no call made.
\<close>

theorem send_failure_counterexample:
  "eligible (groups exWorld) g1 (exClients ! 1) \<and> exClients ! 1 \<in> set (clients exWorld) \<and>
   \<not> sendRaises exEnvSend1 (sock (exClients ! 1)) \<and>
   broadcast exEnvSend1 g1 exMsg exWorld = (Inl SendRaised, exWorld)"
  by (simp add: broadcast_def exEnvSend1_def exEnv_def exWorld_def exClients_def
        eligible_def includesId_def ex_ids)

text \<open>
  C3, amended. When \<^verbatim>\<open>send\<close> raises on a matching connection and on no matching
  connection before it, the loop stops there: the matching connections before it in
  iteration order have been sent the payload, no connection after it is sent anything,
  and the exception leaves the broadcast.
\<close>

theorem broadcast_stops_at_failed_send:
  assumes "clients w = pre @ c # post"
      and "eligible (groups w) G c"
      and "sendRaises e (sock c)"
      and "\<forall>x\<in>set pre. eligible (groups w) G x \<longrightarrow> \<not> sendRaises e (sock x)"
  shows "broadcast e G m w =
           (Inl SendRaised, w\<lparr>trace := trace w @
              map (\<lambda>x. Send (sock x) m) (filter (eligible (groups w) G) pre)\<rparr>)"
proof -
  from assms(2) have tagged: "\<forall>x\<in>set pre. c_groupId x = Some G \<longrightarrow> groups w G \<noteq> None"
    by (auto simp: eligible_def split: option.splits)
  have "forEachSend e (groups w) G (pre @ c # post) =
          (Inl SendRaised, map sock (filter (eligible (groups w) G) pre))"
    by (rule forEachSend_stops [OF tagged assms(4) assms(2) assms(3)])
  then show ?thesis by (simp add: broadcast_def assms(1) comp_def)
qed

theorem broadcast_stops_witness:
  "broadcast exEnvSend2 g1 exMsg exWorld =
     (Inl SendRaised, exWorld\<lparr>trace := [Send 1 exMsg]\<rparr>)"
proof -
  have h1: "clients exWorld = [exClients ! 0] @ (exClients ! 1) # drop 2 exClients"
    by (simp add: exWorld_def exClients_def)
  have h2: "eligible (groups exWorld) g1 (exClients ! 1)"
    by (simp add: exWorld_def exClients_def eligible_def includesId_def ex_ids)
  have h3: "sendRaises exEnvSend2 (sock (exClients ! 1))"
    by (simp add: exEnvSend2_def exClients_def)
  have h4: "\<forall>x\<in>set [exClients ! 0]. eligible (groups exWorld) g1 x \<longrightarrow> \<not> sendRaises exEnvSend2 (sock x)"
    by (simp add: exEnvSend2_def exClients_def)
  show ?thesis
    using broadcast_stops_at_failed_send [OF h1 h2 h3 h4, of exMsg]
    by (simp add: exWorld_def exClients_def eligible_def includesId_def ex_ids)
qed

section \<open>Failed authentication\<close>




section \<open>Blank frames\<close>

text \<open>
  C5. A frame that is empty or consists of white space only trims to the empty string,
  and the message handler returns normally without an append and without a broadcast:
  the state is unchanged, except that the socket of a user for whom
  \<^verbatim>\<open>users[userId]\<close> is undefined is closed, as for any frame.
\<close>

theorem onMessage_blank:
  assumes "\<forall>c\<in>set data. isWhiteSpace c"
  shows "trim data = [] \<and>
         onMessage e sk userId groupId data w =
           (Inr (), if usersGet (users w) userId = None then logCall (Close sk 4001) w else w)"
  using assms by (auto simp: onMessage_def trim_empty_iff split: option.splits)

theorem onMessage_blank_witness:
  "trim blank = [] \<and> onMessage exEnv 1 alice g1 blank exWorld = (Inr (), exWorld)"
proof -
  have h: "\<forall>c\<in>set blank. isWhiteSpace c" by (simp add: blank_def isWhiteSpace_def)
  have u: "usersGet (users exWorld) alice \<noteq> None"
    by (simp add: usersGet_def exWorld_def ex_ids)
  from onMessage_blank [OF h, of exEnv 1 alice g1 exWorld] u show ?thesis by simp
qed

section \<open>A failing completion provider\<close>

text \<open>
  C6, as stated, fails in its last part: when the provider answers Alice's request with
  429, the handler throws the provider's error, nothing is appended or broadcast, and
  the caller is answered with status 429, which is not a server error status.
\<close>

theorem provider_failure_counterexample:
  "groq exEnvGroq429 (transcript [Some (str ''hello'')] (Some (str ''why?''))) = Inl (Some 429) \<and>
   chatRoute exEnvGroq429 exChat exWorld =
     (Some (429, ErrorBody (GroqRejected (Some 429))),
      exWorld\<lparr>trace :=
        [ChatCompletion (transcript [Some (str ''hello'')] (Some (str ''why?'')))]\<rparr>) \<and>
   \<not> (500 \<le> (429::nat))"
  by (simp add: chatRoute_def postChat_def usersGet_def defaultErrorHandler_def errorStatus_def
        logCall_def truthy_def falsy_def exEnvGroq429_def exEnv_def exChat_def exChatData_def
        exWorld_def ex_ids)

text \<open>
  C6, amended. For a request to \<^verbatim>\<open>POST /chat\<close> that reaches the provider (it
  passes the four guards, where the guard on \<^verbatim>\<open>users[userId]\<close> is also passed by
  the keys \<open>users\<close> inherits, and carries a message list), when the provider rejects,
  the handler throws the provider's error with the call to the provider as the only call
  made, so nothing is appended and nothing is broadcast; the caller is answered with an
  error response and never a success: its status is the one the provider's error
  carries when that is 400 or more, and 500 otherwise.
\<close>

theorem postChat_provider_failure:
  assumes "truthy (r_userId req) = Some userId"
      and "truthy (r_groupId req) = Some groupId"
      and "r_data req = Some data"
      and "usersGet (users w) userId = Some name"
      and "d_messages data = Some items"
      and "groq e (transcript items (d_query data)) = Inl st"
  shows "postChat e req w =
           (Inl (GroqRejected st),
            logCall (ChatCompletion (transcript items (d_query data))) w) \<and>
         chatRoute e req w =
           (Some ((case st of None \<Rightarrow> 500 | Some s \<Rightarrow> if 400 \<le> s then s else 500),
                  ErrorBody (GroqRejected st)),
            logCall (ChatCompletion (transcript items (d_query data))) w)"
  using assms
  by (simp add: chatRoute_def postChat_def defaultErrorHandler_def errorStatus_def)

text \<open>
  A request in the name of \<open>constructor\<close>, for which \<open>users\<close> has no entry of its
  own, while the provider cannot be reached: the answer is 500.
\<close>

theorem postChat_provider_failure_witness:
  "postChat exEnvGroqDown exChatInherited exWorld =
     (Inl (GroqRejected None),
      logCall (ChatCompletion (transcript [Some (str ''hello'')] (Some (str ''why?'')))) exWorld) \<and>
   chatRoute exEnvGroqDown exChatInherited exWorld =
     (Some (500, ErrorBody (GroqRejected None)),
      logCall (ChatCompletion (transcript [Some (str ''hello'')] (Some (str ''why?'')))) exWorld)"
proof -
  have h1: "truthy (r_userId exChatInherited) = Some (str ''constructor'')"
    by (simp add: truthy_def falsy_def exChatInherited_def str_def)
  have h2: "truthy (r_groupId exChatInherited) = Some g1"
    by (simp add: truthy_def falsy_def exChatInherited_def ex_ids)
  have h3: "r_data exChatInherited = Some exChatData" by (simp add: exChatInherited_def)
  have h4: "usersGet (users exWorld) (str ''constructor'') = Some (Some (str ''Object''))"
    by (simp add: usersGet_def objectPrototype_def exWorld_def ex_ids)
  have h5: "d_messages exChatData = Some [Some (str ''hello'')]" by (simp add: exChatData_def)
  have h6: "groq exEnvGroqDown (transcript [Some (str ''hello'')] (d_query exChatData)) = Inl None"
    by (simp add: exEnvGroqDown_def)
  from postChat_provider_failure [OF h1 h2 h3 h4 h5 h6] show ?thesis
    by (simp add: exChatData_def)
qed

section \<open>Disconnect\<close>

text \<open>
  C7. The close handler exists only for a connection that was authenticated, which wrote
  the entry of its group, and entries of \<open>groups\<close> are never removed
  (\<open>onConnect_success_registers\<close>, \<open>onClose_keeps_entries\<close>,
  \<open>onMessage_keeps\<close>). In such a state the handler returns normally, and running it a
  second time returns normally and gives the state of the first run.
\<close>

theorem onClose_idempotent:
  assumes "groups w groupId \<noteq> None"
  shows "fst (onClose userId groupId w) = Inr () \<and>
         onClose userId groupId (snd (onClose userId groupId w)) = onClose userId groupId w"
  using assms by (auto simp: onClose_def Let_def)

theorem onClose_idempotent_witness:
  "fst (onClose alice g1 exWorld) = Inr () \<and>
   onClose alice g1 (snd (onClose alice g1 exWorld)) = onClose alice g1 exWorld \<and>
   groups (snd (onClose alice g1 exWorld)) g1 = Some [bob]"
proof -
  have h: "groups exWorld g1 \<noteq> None" by (simp add: exWorld_def)
  have "groups (snd (onClose alice g1 exWorld)) g1 = Some [bob]"
    by (simp add: onClose_def exWorld_def ex_ids)
  with onClose_idempotent [OF h, of alice] show ?thesis by simp
qed

section \<open>Missing parameters\<close>

text \<open>
  C8. When the user id or the group id of a connection attempt is absent (or empty), the
  handler throws the error naming the first missing parameter and leaves the state as it
  was: no identity lookup, no group read, no change of \<open>users\<close> or \<open>groups\<close>.
\<close>

theorem onConnect_missing:
  assumes "falsy qUserId \<or> falsy qGroupId"
  shows "onConnect e sk qUserId qGroupId w =
           (Inl (Error (if falsy qUserId then ''User id is required.''
                        else ''Group id is required.'')), w)"
  using assms by (auto simp: onConnect_def truthy_def falsy_def split: option.splits)

theorem onConnect_missing_witness:
  "onConnect exEnv 5 None (Some g1) exWorld = (Inl (Error ''User id is required.''), exWorld)"
proof -
  have h: "falsy None \<or> falsy (Some g1)" by (simp add: falsy_def)
  from onConnect_missing [OF h, of exEnv 5 exWorld] show ?thesis by (simp add: falsy_def)
qed

section \<open>Group creation\<close>

text \<open>
  C9. \<^verbatim>\<open>POST /groups\<close> either throws and leaves the store as it was, or
  replies with the new group and leaves the store with all three effects: the group
  document with the requesting user as its only member, the user document created when
  absent, and the pair of group id and name added to the user's index by
  \<^verbatim>\<open>arrayUnion\<close>. All writes of the handler are buffered in its one transaction.
\<close>

theorem postGroups_atomic:
  "(\<exists>err. fst (postGroups e req w) = Inl err) \<and> db (snd (postGroups e req w)) = db w
   \<or>
   (\<exists>userId groupName.
      truthy (cr_userId req) = Some userId \<and> truthy (cr_groupName req) = Some groupName \<and>
      fst (postGroups e req w) = Inr (Some (200, Created userId (uuidv4 e) groupName)) \<and>
      db (snd (postGroups e req w)) =
        (db w)\<lparr>groupsCol := (groupsCol (db w))(uuidv4 e \<mapsto>
                   \<lparr>g_id = uuidv4 e, g_userId = userId, g_name = groupName,
                    g_messages = [], g_members = [userId]\<rparr>),
                usersCol := (usersCol (db w))(userId \<mapsto>
                   (case usersCol (db w) userId of
                      None \<Rightarrow> \<lparr>u_id = userId, u_groups = [(uuidv4 e, groupName)]\<rparr>
                    | Some u \<Rightarrow> u\<lparr>u_groups := arrayUnion (u_groups u) (uuidv4 e, groupName)\<rparr>))\<rparr>)"
proof (cases "truthy (cr_userId req)")
  case None
  then show ?thesis by (simp add: postGroups_def)
next
  case u: (Some userId)
  show ?thesis
  proof (cases "truthy (cr_groupName req)")
    case None
    with u show ?thesis by (simp add: postGroups_def)
  next
    case n: (Some groupName)
    show ?thesis
    proof (cases "getUser e userId")
      case None
      with u n show ?thesis by (simp add: postGroups_def clerkGetUser_def)
    next
      case c: (Some user)
      show ?thesis
      proof (cases "docThrows e (uuidv4 e) \<or> docThrows e userId")
      case True
      with u n c show ?thesis by (auto simp: postGroups_def clerkGetUser_def doc_def)
      next
      case dv: False
      let ?w1 = "logCall (GetUser userId) w"
      let ?f = "createGroupTx userId (uuidv4 e) userId (uuidv4 e) groupName"
      have pg: "postGroups e req w =
                  (case runTransaction e ?f ?w1 of
                     (Inl err, w2) \<Rightarrow> (Inl err, w2)
                   | (Inr x, w2) \<Rightarrow> (Inr (Some (200, Created userId (uuidv4 e) groupName)), w2))"
        using u n c dv by (simp add: postGroups_def clerkGetUser_def doc_def)
      from runTransaction_cases [of e ?f ?w1] show ?thesis
      proof
        assume "runTransaction e ?f ?w1 = (Inl FirestoreRejected, logCall RunTransaction ?w1)"
        then show ?thesis by (simp add: pg)
      next
        assume "\<exists>d. commit (?f (db ?w1)) (db ?w1) = Some d \<and>
                  runTransaction e ?f ?w1 = (Inr (), logCall RunTransaction (?w1\<lparr>db := d\<rparr>))"
        then obtain d where d: "commit (?f (db w)) (db w) = Some d"
          and r: "runTransaction e ?f ?w1 = (Inr (), logCall RunTransaction (?w1\<lparr>db := d\<rparr>))"
          by auto
        from d have "d = (db w)\<lparr>groupsCol := (groupsCol (db w))(uuidv4 e \<mapsto>
                   \<lparr>g_id = uuidv4 e, g_userId = userId, g_name = groupName,
                    g_messages = [], g_members = [userId]\<rparr>),
                usersCol := (usersCol (db w))(userId \<mapsto>
                   (case usersCol (db w) userId of
                      None \<Rightarrow> \<lparr>u_id = userId, u_groups = [(uuidv4 e, groupName)]\<rparr>
                    | Some u \<Rightarrow> u\<lparr>u_groups := arrayUnion (u_groups u) (uuidv4 e, groupName)\<rparr>))\<rparr>"
          by (simp only: commit_createGroupTx option.inject)
        then show ?thesis using u n by (simp add: pg r)
      qed
      qed
    qed
  qed
qed

text \<open>
  Bob, who has no user document yet, creates a group.
\<close>

theorem postGroups_atomic_witness:
  "fst (postGroups exEnv exCreate exWorld) = Inr (Some (200, Created bob g3 (str ''chess''))) \<and>
   groupsCol (db (snd (postGroups exEnv exCreate exWorld))) g3 =
     Some \<lparr>g_id = g3, g_userId = bob, g_name = str ''chess'', g_messages = [], g_members = [bob]\<rparr> \<and>
   usersCol (db (snd (postGroups exEnv exCreate exWorld))) bob =
     Some \<lparr>u_id = bob, u_groups = [(g3, str ''chess'')]\<rparr>"
proof -
  have ok: "fst (postGroups exEnv exCreate exWorld) = Inr (Some (200, Created bob g3 (str ''chess'')))"
    by (simp add: postGroups_def createGroupTx_def run_defs exEnv_def exClerk_def exCreate_def
          exWorld_def exDb_def ex_ids)
  have u: "truthy (cr_userId exCreate) = Some bob" "truthy (cr_groupName exCreate) = Some (str ''chess'')"
    by (simp_all add: truthy_def falsy_def exCreate_def ex_ids)
  have g: "uuidv4 exEnv = g3" by (simp add: exEnv_def)
  have n: "usersCol (db exWorld) bob = None" by (simp add: exWorld_def exDb_def ex_ids)
  from postGroups_atomic [of exEnv exCreate exWorld] ok u
  have "db (snd (postGroups exEnv exCreate exWorld)) =
        (db exWorld)\<lparr>groupsCol := (groupsCol (db exWorld))(g3 \<mapsto>
                   \<lparr>g_id = g3, g_userId = bob, g_name = str ''chess'',
                    g_messages = [], g_members = [bob]\<rparr>),
                usersCol := (usersCol (db exWorld))(bob \<mapsto>
                   \<lparr>u_id = bob, u_groups = [(g3, str ''chess'')]\<rparr>)\<rparr>"
    by (simp add: g n)
  with ok show ?thesis by simp
qed

section \<open>Joining a group\<close>

text \<open>
  C10. A successful \<^verbatim>\<open>PATCH /groups\<close> replies with the group document as
  it was read before the transaction, while the stored document has the user added to
  its members; so for a user who was not a member the reply's member list lacks the user
  and the stored one ends with the user.
\<close>

theorem patchGroups_returns_record_read_before:
  assumes ok: "fst (patchGroups e req w) = Inr (Some (200, b))"
  shows "\<exists>userId groupId data.
           truthy (jr_userId req) = Some userId \<and> truthy (jr_groupId req) = Some groupId \<and>
           groupsCol (db w) groupId = Some data \<and> b = GroupData data \<and>
           groupsCol (db (snd (patchGroups e req w))) groupId =
             Some (data\<lparr>g_members := arrayUnion (g_members data) userId\<rparr>) \<and>
           userId \<in> set (arrayUnion (g_members data) userId) \<and>
           (userId \<notin> set (g_members data) \<longrightarrow>
              arrayUnion (g_members data) userId = g_members data @ [userId])"
proof (cases "truthy (jr_userId req)")
  case None
  with ok show ?thesis by (simp add: patchGroups_def)
next
  case u: (Some userId)
  show ?thesis
  proof (cases "truthy (jr_groupId req)")
    case None
    with ok u show ?thesis by (simp add: patchGroups_def)
  next
    case g: (Some groupId)
    show ?thesis
    proof (cases "getUser e userId")
      case None
      with ok u g show ?thesis by (simp add: patchGroups_def clerkGetUser_def)
    next
      case c: (Some user)
      show ?thesis
      proof (cases "docThrows e userId \<or> docThrows e groupId \<or> readFails e")
        case True
        with ok u g c show ?thesis
          by (auto simp: patchGroups_def clerkGetUser_def getDoc_def doc_def split: if_splits)
      next
        case rf: False
        show ?thesis
        proof (cases "groupsCol (db w) groupId")
          case None
          with ok u g c rf show ?thesis
            by (simp add: patchGroups_def clerkGetUser_def getDoc_def doc_def)
        next
          case dt: (Some data)
          let ?w2 = "logCall (GetDoc groupId) (logCall (GetUser userId) w)"
          let ?f = "joinGroupTx userId groupId userId data"
          have pg: "patchGroups e req w =
                  (case runTransaction e ?f ?w2 of
                     (Inl err, w3) \<Rightarrow> (Inl err, w3)
                   | (Inr x, w3) \<Rightarrow> (Inr (Some (200, GroupData data)), w3))"
            using u g c rf dt by (simp add: patchGroups_def clerkGetUser_def getDoc_def doc_def)
          from runTransaction_cases [of e ?f ?w2] show ?thesis
          proof
            assume "runTransaction e ?f ?w2 = (Inl FirestoreRejected, logCall RunTransaction ?w2)"
            with ok show ?thesis by (simp add: pg)
          next
            assume "\<exists>d. commit (?f (db ?w2)) (db ?w2) = Some d \<and>
                  runTransaction e ?f ?w2 = (Inr (), logCall RunTransaction (?w2\<lparr>db := d\<rparr>))"
            then obtain d where d: "commit (?f (db w)) (db w) = Some d"
              and r: "runTransaction e ?f ?w2 = (Inr (), logCall RunTransaction (?w2\<lparr>db := d\<rparr>))"
              by auto
            from d have "groupsCol d groupId =
                Some (data\<lparr>g_members := arrayUnion (g_members data) userId\<rparr>)"
              by (auto simp: commit_joinGroupTx [OF dt])
            moreover from ok have "b = GroupData data" by (simp add: pg r)
            ultimately show ?thesis using u g dt
              by (simp add: pg r arrayUnion_member arrayUnion_def)
          qed
        qed
      qed
    qed
  qed
qed

text \<open>
  Carol joins \<open>g1\<close>: the reply is the old document, without her.
\<close>

theorem patchGroups_witness:
  "fst (patchGroups exEnv exJoin exWorld) = Inr (Some (200, GroupData exGroup1)) \<and>
   carol \<notin> set (g_members exGroup1) \<and>
   map_option g_members (groupsCol (db (snd (patchGroups exEnv exJoin exWorld))) g1) =
     Some [alice, bob, dave, carol]"
proof -
  have ok: "fst (patchGroups exEnv exJoin exWorld) = Inr (Some (200, GroupData exGroup1))"
    by (simp add: patchGroups_def joinGroupTx_def run_defs exEnv_def exClerk_def exJoin_def
          exWorld_def exDb_def exGroup1_def ex_ids)
  have u: "truthy (jr_userId exJoin) = Some carol" "truthy (jr_groupId exJoin) = Some g1"
    by (simp_all add: truthy_def falsy_def exJoin_def ex_ids)
  have d: "groupsCol (db exWorld) g1 = Some exGroup1" by (simp add: exWorld_def exDb_def ex_ids)
  have nm: "carol \<notin> set (g_members exGroup1)" by (simp add: exGroup1_def ex_ids)
  from patchGroups_returns_record_read_before [OF ok] u d
  have "groupsCol (db (snd (patchGroups exEnv exJoin exWorld))) g1 =
          Some (exGroup1\<lparr>g_members := arrayUnion (g_members exGroup1) carol\<rparr>)"
    by auto
  then have "map_option g_members (groupsCol (db (snd (patchGroups exEnv exJoin exWorld))) g1) =
     Some [alice, bob, dave, carol]"
    by (simp add: arrayUnion_def exGroup1_def ex_ids)
  with ok nm show ?thesis by simp
qed

end
